theory Spec2Isabelle
  imports Main "HOL-Library.Sublist"
begin

section \<open>Python strings\<close>

text \<open>
  A Python \<open>str\<close> is a sequence of Unicode code points, and \<open>len\<close>, indexing, iteration
  and slicing all count code points. A code point is a natural number here and a string is a
  list of them. ASCII literals of the source are written through \<open>asc\<close>; the emoji of the
  source are written as their code points.
\<close>

type_synonym codepoint = nat
type_synonym str = "codepoint list"

definition asc :: "string \<Rightarrow> str" where
  "asc s = map of_char s"

text \<open>
  The case conversions and \<open>str.strip\<close> read the Unicode character database of the Python
  runtime, which is no part of the repository. The functions below take its rows as a
  parameter: the full case mappings (one code point maps to one, two or three), the
  properties \<open>Cased\<close> and \<open>Case_Ignorable\<close>, and the whitespace test of \<open>str.strip\<close>.
  Every theorem stated for \<open>db\<close> holds for whatever database the runtime carries.
\<close>

record unicode_db =
  to_upper_full :: "codepoint \<Rightarrow> str"
  to_lower_full :: "codepoint \<Rightarrow> str"
  to_title_full :: "codepoint \<Rightarrow> str"
  is_cased :: "codepoint \<Rightarrow> bool"
  is_case_ignorable :: "codepoint \<Rightarrow> bool"
  is_space :: "codepoint \<Rightarrow> bool"

text \<open>
  The rows of the database for U+0000 to U+007F and for U+00DF (the German sharp s, whose
  uppercase is the two letters SS and whose titlecase is Ss). Every other code point is
  left without case and without the whitespace property; the concrete evaluations below
  use the listed code points only.
\<close>

definition ucd_fragment :: unicode_db where
  "ucd_fragment =
     \<lparr> to_upper_full = (\<lambda>c. if 97 \<le> c \<and> c \<le> 122 then [c - 32]
                            else if c = 223 then [83, 83] else [c]),
       to_lower_full = (\<lambda>c. if 65 \<le> c \<and> c \<le> 90 then [c + 32] else [c]),
       to_title_full = (\<lambda>c. if 97 \<le> c \<and> c \<le> 122 then [c - 32]
                            else if c = 223 then [83, 115] else [c]),
       is_cased = (\<lambda>c. (65 \<le> c \<and> c \<le> 90) \<or> (97 \<le> c \<and> c \<le> 122) \<or> c = 223),
       is_case_ignorable = (\<lambda>c. c = 39 \<or> c = 46 \<or> c = 58 \<or> c = 94 \<or> c = 96),
       is_space = (\<lambda>c. (9 \<le> c \<and> c \<le> 13) \<or> (28 \<le> c \<and> c \<le> 32)) \<rparr>"

text \<open>\<open>str.upper\<close>: every code point is replaced by its full uppercase mapping.\<close>

definition py_upper :: "unicode_db \<Rightarrow> str \<Rightarrow> str" where
  "py_upper db s = concat (map (to_upper_full db) s)"

text \<open>
  \<open>str.lower\<close> maps every code point by its full lowercase mapping, except the capital
  sigma U+03A3: it becomes the final sigma U+03C2 when a cased code point stands before it
  and none behind it, case-ignorable code points skipped on both sides, and the small sigma
  U+03C3 otherwise. \<open>seen\<close> is the text to the left of the position, nearest code
  point first.
\<close>

definition final_sigma :: "unicode_db \<Rightarrow> str \<Rightarrow> str \<Rightarrow> bool" where
  "final_sigma db seen rest =
     ((case dropWhile (is_case_ignorable db) seen of [] \<Rightarrow> False | c # _ \<Rightarrow> is_cased db c)
      \<and> (case dropWhile (is_case_ignorable db) rest of [] \<Rightarrow> True | c # _ \<Rightarrow> \<not> is_cased db c))"

definition lower_ucs4 :: "unicode_db \<Rightarrow> str \<Rightarrow> codepoint \<Rightarrow> str \<Rightarrow> str" where
  "lower_ucs4 db seen c rest =
     (if c = 0x3A3 then [if final_sigma db seen rest then 0x3C2 else 0x3C3]
      else to_lower_full db c)"

fun do_lower :: "unicode_db \<Rightarrow> str \<Rightarrow> str \<Rightarrow> str" where
  "do_lower db seen [] = []"
| "do_lower db seen (c # cs) = lower_ucs4 db seen c cs @ do_lower db (c # seen) cs"

definition py_lower :: "unicode_db \<Rightarrow> str \<Rightarrow> str" where
  "py_lower db s = do_lower db [] s"

text \<open>
  \<open>str.title\<close> walks the string with one flag, whether the previous code point is cased:
  behind a cased code point the current one is lowercased, anywhere else it is titlecased.
\<close>

fun do_title :: "unicode_db \<Rightarrow> bool \<Rightarrow> str \<Rightarrow> str \<Rightarrow> str" where
  "do_title db previous_is_cased seen [] = []"
| "do_title db previous_is_cased seen (c # cs) =
     (if previous_is_cased then lower_ucs4 db seen c cs else to_title_full db c)
     @ do_title db (is_cased db c) (c # seen) cs"

definition py_title :: "unicode_db \<Rightarrow> str \<Rightarrow> str" where
  "py_title db s = do_title db False [] s"

text \<open>\<open>str.strip\<close> without argument drops the whitespace at both ends.\<close>

definition py_strip :: "unicode_db \<Rightarrow> str \<Rightarrow> str" where
  "py_strip db s = rev (dropWhile (is_space db) (rev (dropWhile (is_space db) s)))"

text \<open>\<open>sep.join(parts)\<close>.\<close>

fun py_join :: "str \<Rightarrow> str list \<Rightarrow> str" where
  "py_join sep [] = []"
| "py_join sep [x] = x"
| "py_join sep (x # y # ys) = x @ sep @ py_join sep (y # ys)"

section \<open>The name-style engine\<close>

text \<open>
  The five variants that \<open>create_name_styles\<close> computes itself. In the alternating
  variant \<open>char.upper()\<close> and \<open>char.lower()\<close> act on the one-character string.
\<close>

definition alternating :: "unicode_db \<Rightarrow> str \<Rightarrow> str" where
  "alternating db name =
     concat (map (\<lambda>(i, char). if i mod 2 = 0 then py_upper db [char] else py_lower db [char])
                 (enumerate 0 name))"

definition reversed :: "str \<Rightarrow> str" where
  "reversed name = rev name"

definition emoji_name :: "str \<Rightarrow> str" where
  "emoji_name name = py_join (asc '' '') (map (\<lambda>char. [char, 0x2728]) name)"

definition spaced :: "str \<Rightarrow> str" where
  "spaced name = py_join (asc '' '') (map (\<lambda>char. [char]) name)"

text \<open>
  The list \<open>styles\<close> as it stands when the function returns, and the function's result.
  U+1F539 and U+1F538 are the small blue and the small orange diamond.
\<close>

definition styles :: "unicode_db \<Rightarrow> str \<Rightarrow> str list" where
  "styles db name =
     [ 0x1F539 # asc '' Normal: '' @ name,
       0x1F538 # asc '' UPPERCASE: '' @ py_upper db name,
       0x1F539 # asc '' lowercase: '' @ py_lower db name,
       0x1F538 # asc '' Title Case: '' @ py_title db name,
       0x1F539 # asc '' AlTeRnAtInG: '' @ alternating db name,
       0x1F538 # asc '' Reverse: '' @ reversed name,
       0x1F539 # asc '' With Emojis: '' @ emoji_name name,
       0x1F538 # asc '' Spaced Out: '' @ spaced name ]"

definition create_name_styles :: "unicode_db \<Rightarrow> str \<Rightarrow> str" where
  "create_name_styles db name = py_join (asc [CHR 0x0A]) (styles db name)"

text \<open>
  The lines of a string, as \<open>s.split('\n')\<close> gives them: the pieces between line feeds.
\<close>

fun lines_of :: "str \<Rightarrow> str list" where
  "lines_of [] = [[]]"
| "lines_of (c # cs) =
     (if c = 10 then [] # lines_of cs
      else (case lines_of cs of [] \<Rightarrow> [[c]] | l # ls \<Rightarrow> (c # l) # ls))"

text \<open>The eight labels of the source's f-strings, in the order of the appends.\<close>

definition style_labels :: "str list" where
  "style_labels =
     [ 0x1F539 # asc '' Normal: '',
       0x1F538 # asc '' UPPERCASE: '',
       0x1F539 # asc '' lowercase: '',
       0x1F538 # asc '' Title Case: '',
       0x1F539 # asc '' AlTeRnAtInG: '',
       0x1F538 # asc '' Reverse: '',
       0x1F539 # asc '' With Emojis: '',
       0x1F538 # asc '' Spaced Out: '' ]"

text \<open>
  A name is single-line when it holds no line feed (U+000A) and the case mappings of its
  code points produce none. In the Unicode database no mapping produces a line feed, so
  for the runtime this says that the name holds no line feed.
\<close>

definition single_line :: "unicode_db \<Rightarrow> str \<Rightarrow> bool" where
  "single_line db name =
     list_all (\<lambda>c. c \<noteq> 10 \<and> 10 \<notin> set (to_upper_full db c) \<and> 10 \<notin> set (to_lower_full db c)
                    \<and> 10 \<notin> set (to_title_full db c)) name"

text \<open>
  A name has simple case mappings in place when each code point at an even index has an
  uppercase of one code point and each at an odd index a lowercase of one code point: the
  mappings that the alternating variant applies (true of every ASCII name; false of a
  name with the sharp s at an even index).
\<close>

definition simple_case_in_place :: "unicode_db \<Rightarrow> str \<Rightarrow> bool" where
  "simple_case_in_place db name =
     list_all (\<lambda>(i, char). if i mod 2 = 0 then length (to_upper_full db char) = 1
                             else length (to_lower_full db char) = 1)
              (enumerate 0 name)"

text \<open>
  Title case as the specification words it: the first code point of each
  whitespace-delimited word is capitalized, the other code points of the word are
  lowercased, and whitespace stays. \<open>in_word\<close> says that the previous code point is not
  whitespace.
\<close>

fun title_words :: "unicode_db \<Rightarrow> bool \<Rightarrow> str \<Rightarrow> str \<Rightarrow> str" where
  "title_words db in_word seen [] = []"
| "title_words db in_word seen (c # cs) =
     (if is_space db c then [c]
      else if in_word then lower_ucs4 db seen c cs
      else to_title_full db c)
     @ title_words db (\<not> is_space db c) (c # seen) cs"

definition spec_title :: "unicode_db \<Rightarrow> str \<Rightarrow> str" where
  "spec_title db s = title_words db False [] s"

text \<open>
  The names on which the specification's rule and \<open>str.title\<close> are compared. Whitespace
  is plain when it has no case and the title and lowercase mappings leave it alone, as
  they leave all whitespace of the Unicode database. A name has no letter behind a
  caseless character when every code point that directly follows one that is neither
  whitespace nor cased (a digit, a hyphen, an apostrophe, a letter of a script without
  case) is whitespace or has the same title and lowercase mapping, that is, has no case
  itself.
\<close>

definition plain_space :: "unicode_db \<Rightarrow> codepoint \<Rightarrow> bool" where
  "plain_space db c =
     (\<not> is_cased db c \<and> c \<noteq> 0x3A3 \<and> to_title_full db c = [c] \<and> to_lower_full db c = [c])"

definition whitespace_plain :: "unicode_db \<Rightarrow> str \<Rightarrow> bool" where
  "whitespace_plain db name = list_all (\<lambda>c. if is_space db c then plain_space db c else True) name"

definition same_title_lower :: "unicode_db \<Rightarrow> codepoint \<Rightarrow> bool" where
  "same_title_lower db c = (c \<noteq> 0x3A3 \<and> to_title_full db c = to_lower_full db c)"

fun no_letter_behind_caseless :: "unicode_db \<Rightarrow> str \<Rightarrow> bool" where
  "no_letter_behind_caseless db [] = True"
| "no_letter_behind_caseless db [c] = True"
| "no_letter_behind_caseless db (p # c # cs) =
     ((if is_space db p \<or> is_cased db p \<or> is_space db c then True else same_title_lower db c)
      \<and> no_letter_behind_caseless db (c # cs))"

section \<open>The conversation controller\<close>

text \<open>
  An inbound update, as the handlers of the source tell updates apart: a message that
  starts with a bot command addressed to this bot (\<open>Command\<close>, with the command's name as
  \<open>CommandHandler\<close> compares it), or a message with text and no leading command
  (\<open>Text\<close>). An outbound reply is its text and the reply keyboard sent with it, if any.
\<close>

datatype update = Command string | Text str

record reply =
  reply_text :: str
  reply_markup :: "string list list option"

fun message_text :: "update \<Rightarrow> str" where
  "message_text (Text body) = body"
| "message_text (Command name) = asc (CHR ''/'' # name)"

definition GET_NAME :: int where
  "GET_NAME = 1"

text \<open>\<open>ConversationHandler.END\<close> of the bot library.\<close>

definition END :: int where
  "END = -1"

text \<open>
  The callbacks. Each returns the replies it sends, in order, and its return value: the
  next conversation state, or nothing for \<open>help_command\<close>.
\<close>

definition start :: "reply list \<times> int option" where
  "start =
     (let welcome_message =
            0x1F44B # asc '' Welcome to the Name Styler Bot!'' @ [10, 10]
            @ asc ''I can display your name in different cool styles. ''
            @ asc ''Please send me your name:''
      in ([\<lparr>reply_text = welcome_message, reply_markup = None\<rparr>], Some GET_NAME))"

definition get_name :: "unicode_db \<Rightarrow> str \<Rightarrow> reply list \<times> int option" where
  "get_name db text_in =
     (let user_name = py_strip db text_in in
      if user_name = []
      then ([\<lparr>reply_text = asc ''Please send me a valid name!'', reply_markup = None\<rparr>],
            Some GET_NAME)
      else
        (let styled = create_name_styles db user_name;
             response =
               0x2728 # asc '' Here's your name in different styles, '' @ user_name
               @ asc ''!'' @ [10, 10] @ styled;
             keyboard = [[''/start'', ''/help'']]
         in ([\<lparr>reply_text = response, reply_markup = None\<rparr>,
              \<lparr>reply_text = asc ''Want to try another name? Use /start to begin again!'',
               reply_markup = Some keyboard\<rparr>],
             Some END)))"

definition help_command :: "reply list \<times> int option" where
  "help_command =
     (let help_text =
            0x1F916 # asc '' Name Styler Bot Help'' @ [10, 10]
            @ 0x2022 # asc '' Use /start to begin and enter your name'' @ [10]
            @ 0x2022 # asc '' I'll show your name in different cool styles'' @ [10]
            @ 0x2022 # asc '' You can try as many names as you want!'' @ [10, 10]
            @ asc ''Just type /start to begin the fun!''
      in ([\<lparr>reply_text = help_text, reply_markup = None\<rparr>], None))"

definition cancel :: "reply list \<times> int option" where
  "cancel =
     ([\<lparr>reply_text = asc ''Operation cancelled. Use /start to begin again!'',
        reply_markup = Some [[''/start'']]\<rparr>],
      Some END)"

text \<open>
  The handlers of the bot library that \<open>run_bot\<close> registers. A \<open>CommandHandler\<close> accepts
  the updates that carry its command; a \<open>MessageHandler\<close> accepts the updates that pass
  its filter. \<open>filters.TEXT\<close> passes a message whose text is not empty,
  \<open>filters.COMMAND\<close> a message that starts with a bot command.
\<close>

datatype callback = Start | GetName | Cancel | HelpCommand

datatype message_filter = TEXT | COMMAND | Both message_filter message_filter
  | Inverted message_filter

datatype handler = CommandHandler string callback | MessageHandler message_filter callback

fun filter_check :: "message_filter \<Rightarrow> update \<Rightarrow> bool" where
  "filter_check TEXT u = (message_text u \<noteq> [])"
| "filter_check COMMAND (Command name) = True"
| "filter_check COMMAND (Text body) = False"
| "filter_check (Both f g) u = (filter_check f u \<and> filter_check g u)"
| "filter_check (Inverted f) u = (\<not> filter_check f u)"

fun check_update :: "handler \<Rightarrow> update \<Rightarrow> callback option" where
  "check_update (CommandHandler command cb) (Command name) =
     (if name = command then Some cb else None)"
| "check_update (CommandHandler command cb) (Text body) = None"
| "check_update (MessageHandler f cb) u = (if filter_check f u then Some cb else None)"

text \<open>The first handler of a list that accepts the update.\<close>

fun first_match :: "handler list \<Rightarrow> update \<Rightarrow> callback option" where
  "first_match [] u = None"
| "first_match (h # hs) u =
     (case check_update h u of Some cb \<Rightarrow> Some cb | None \<Rightarrow> first_match hs u)"

text \<open>
  A \<open>ConversationHandler\<close> and how it selects a handler for an update. The conversation's
  state is \<open>None\<close> when no conversation is under way. The entry points are tried only
  then, or when \<open>allow_reentry\<close> is set; the handlers of the current state and, if none of
  them accepts the update, the fallbacks are tried only while a conversation is under way.
\<close>

record conversation_handler =
  entry_points :: "handler list"
  states :: "(int \<times> handler list) list"
  fallbacks :: "handler list"
  allow_reentry :: bool

definition conversation_check_update ::
  "conversation_handler \<Rightarrow> int option \<Rightarrow> update \<Rightarrow> callback option" where
  "conversation_check_update ch state u =
     (case (if state = None \<or> allow_reentry ch then first_match (entry_points ch) u else None) of
        Some cb \<Rightarrow> Some cb
      | None \<Rightarrow>
          (case state of
             None \<Rightarrow> None
           | Some s \<Rightarrow>
               (case first_match (case map_of (states ch) s of None \<Rightarrow> [] | Some hs \<Rightarrow> hs) u of
                  Some cb \<Rightarrow> Some cb
                | None \<Rightarrow> first_match (fallbacks ch) u)))"

text \<open>
  After the callback the conversation ends on \<open>END\<close>, moves to the returned state, or
  stays where it is when the callback returns nothing.
\<close>

definition update_state :: "int option \<Rightarrow> int option \<Rightarrow> int option" where
  "update_state new_state state =
     (case new_state of
        None \<Rightarrow> state
      | Some s \<Rightarrow> if s = END then None else Some s)"

text \<open>
  The conversation handler that \<open>run_bot\<close> builds; \<open>allow_reentry\<close> is not passed and has
  the library's default.
\<close>

definition conv_handler :: conversation_handler where
  "conv_handler =
     \<lparr> entry_points = [CommandHandler ''start'' Start],
       states = [(GET_NAME, [MessageHandler (Both TEXT (Inverted COMMAND)) GetName])],
       fallbacks = [CommandHandler ''cancel'' Cancel],
       allow_reentry = False \<rparr>"

fun run_callback :: "unicode_db \<Rightarrow> callback \<Rightarrow> update \<Rightarrow> reply list \<times> int option" where
  "run_callback db Start u = start"
| "run_callback db GetName u = get_name db (message_text u)"
| "run_callback db Cancel u = cancel"
| "run_callback db HelpCommand u = help_command"

text \<open>
  One update through the application: the handlers are tried in the order \<open>run_bot\<close> adds
  them, the conversation handler first and the help command second, and the first that
  accepts the update handles it. The result is the session's next state and the replies
  sent. The session is \<open>Idle\<close> at \<open>None\<close> and \<open>AwaitingName\<close> at \<open>Some GET_NAME\<close>.
\<close>

definition process_update ::
  "unicode_db \<Rightarrow> int option \<Rightarrow> update \<Rightarrow> int option \<times> reply list" where
  "process_update db state u =
     (case conversation_check_update conv_handler state u of
        Some cb \<Rightarrow>
          (let (sent, new_state) = run_callback db cb u in (update_state new_state state, sent))
      | None \<Rightarrow>
          (case check_update (CommandHandler ''help'' HelpCommand) u of
             Some cb \<Rightarrow> (state, fst (run_callback db cb u))
           | None \<Rightarrow> (state, [])))"

section \<open>Process start\<close>

text \<open>
  The module's top level and its main guard, as the effects they have in order. The
  environment maps a variable's name to its value; \<open>os.getenv\<close> gives \<open>None\<close> for a
  variable that is not set. The script raises \<open>ValueError\<close> when the token is \<open>None\<close>
  or empty, and everything below that line is not reached.
\<close>

datatype event = ConfigureLogging | CreateWebApp | StartBotThread str | RunWebServer

datatype error = ValueError string

type_synonym environ = "string \<Rightarrow> str option"

definition module_top_level :: "environ \<Rightarrow> event list \<times> (error + str)" where
  "module_top_level env =
     (let events = [ConfigureLogging];
          TOKEN = env ''TELEGRAM_BOT_TOKEN''
      in case TOKEN of
           None \<Rightarrow>
             (events, Inl (ValueError ''No TELEGRAM_BOT_TOKEN found in environment variables''))
         | Some token \<Rightarrow>
             if token = []
             then (events, Inl (ValueError ''No TELEGRAM_BOT_TOKEN found in environment variables''))
             else (events @ [CreateWebApp], Inr token))"

definition run_script :: "environ \<Rightarrow> event list \<times> error option" where
  "run_script env =
     (case module_top_level env of
        (events, Inl e) \<Rightarrow> (events, Some e)
      | (events, Inr token) \<Rightarrow> (events @ [StartBotThread token, RunWebServer], None))"

text \<open>The events that start a listener: the polling loop of the bot and the HTTP loop.\<close>

fun starts_listener :: "event \<Rightarrow> bool" where
  "starts_listener (StartBotThread token) = True"
| "starts_listener RunWebServer = True"
| "starts_listener e = False"

section \<open>Properties of the string functions\<close>

lemma lines_of_append_lf: "10 \<notin> set x \<Longrightarrow> lines_of (x @ 10 # s) = x # lines_of s"
  by (induction x) auto

lemma lines_of_single: "10 \<notin> set x \<Longrightarrow> lines_of x = [x]"
  by (induction x) auto

lemma lines_of_join:
  "xs \<noteq> [] \<Longrightarrow> list_all (\<lambda>x. 10 \<notin> set x) xs \<Longrightarrow> lines_of (py_join [10] xs) = xs"
proof (induction "[10::nat]" xs rule: py_join.induct)
  case 1
  then show ?case by simp
next
  case (2 x)
  then show ?case by (simp add: lines_of_single)
next
  case (3 x y ys)
  then show ?case by (simp add: lines_of_append_lf)
qed

lemma lower_ucs4_length:
  "length (to_lower_full db c) = 1 \<Longrightarrow> length (lower_ucs4 db seen c rest) = 1"
  by (simp add: lower_ucs4_def)

lemma alternating_length_in_place:
  "list_all (\<lambda>(i, char). if i mod 2 = 0 then length (to_upper_full db char) = 1
                             else length (to_lower_full db char) = 1) (enumerate n name) \<Longrightarrow>
   length (concat (map (\<lambda>(i, char). if i mod 2 = 0 then py_upper db [char] else py_lower db [char])
                 (enumerate n name))) = length name"
  by (induction name arbitrary: n)
     (simp_all add: py_upper_def py_lower_def lower_ucs4_length)

lemma set_py_join: "set (py_join sep xs) \<subseteq> set sep \<union> \<Union> (set ` set xs)"
  by (induction sep xs rule: py_join.induct) auto

lemma lf_lower_ucs4:
  "10 \<notin> set (to_lower_full db c) \<Longrightarrow> 10 \<notin> set (lower_ucs4 db seen c rest)"
  by (simp add: lower_ucs4_def)

lemma lf_do_lower: "single_line db s \<Longrightarrow> 10 \<notin> set (do_lower db seen s)"
  by (induction s arbitrary: seen) (simp_all add: single_line_def lf_lower_ucs4)

lemma lf_do_title: "single_line db s \<Longrightarrow> 10 \<notin> set (do_title db b seen s)"
  by (induction s arbitrary: seen b) (simp_all add: single_line_def lf_lower_ucs4)

lemma lf_upper: "single_line db s \<Longrightarrow> 10 \<notin> set (py_upper db s)"
  by (induction s) (simp_all add: single_line_def py_upper_def)

lemma lf_name: "single_line db s \<Longrightarrow> 10 \<notin> set s"
  by (induction s) (simp_all add: single_line_def)

lemma lf_alternating_from:
  "single_line db s \<Longrightarrow>
   10 \<notin> set (concat (map (\<lambda>(i, char). if i mod 2 = 0 then py_upper db [char] else py_lower db [char])
                 (enumerate n s)))"
  by (induction s arbitrary: n)
     (simp_all add: single_line_def py_upper_def py_lower_def lf_lower_ucs4)

lemma lf_emoji: "10 \<notin> set s \<Longrightarrow> 10 \<notin> set (emoji_name s)"
  using set_py_join [of "asc '' ''" "map (\<lambda>char. [char, 0x2728]) s"]
  by (auto simp: emoji_name_def asc_def)

lemma lf_spaced: "10 \<notin> set s \<Longrightarrow> 10 \<notin> set (spaced s)"
  using set_py_join [of "asc '' ''" "map (\<lambda>char. [char]) s"]
  by (auto simp: spaced_def asc_def)

lemma styles_lf_free:
  assumes "single_line db name"
  shows "list_all (\<lambda>x. 10 \<notin> set x) (styles db name)"
  using assms lf_name [OF assms] lf_upper [OF assms] lf_do_lower [OF assms, of "[]"]
    lf_do_title [OF assms, of False "[]"] lf_alternating_from [OF assms, of 0]
    lf_emoji [of name] lf_spaced [of name]
  by (simp add: styles_def asc_def py_lower_def py_title_def alternating_def reversed_def)

lemma lines_engine:
  "single_line db name \<Longrightarrow> lines_of (create_name_styles db name) = styles db name"
  using lines_of_join [of "styles db name"] styles_lf_free [of db name]
  by (simp add: create_name_styles_def asc_def) (simp add: styles_def)

lemma styles_labelled: "list_all2 prefix style_labels (styles db name)"
  by (simp add: style_labels_def styles_def)

lemma spaced_filter: "32 \<notin> set name \<Longrightarrow> filter (\<lambda>c. c \<noteq> 32) (spaced name) = name"
  unfolding spaced_def asc_def
  by (induction name rule: induct_list012) simp_all

lemma do_title_words_from:
  "whitespace_plain db (p # s) \<Longrightarrow> no_letter_behind_caseless db (p # s) \<Longrightarrow>
   do_title db (is_cased db p) seen s = title_words db (\<not> is_space db p) seen s"
proof (induction s arbitrary: p seen)
  case Nil
  then show ?case by simp
next
  case (Cons c cs)
  from Cons.prems have tl: "whitespace_plain db (c # cs)" "no_letter_behind_caseless db (c # cs)"
    by (simp_all add: whitespace_plain_def)
  have rest: "do_title db (is_cased db c) (c # seen) cs
              = title_words db (\<not> is_space db c) (c # seen) cs"
    using Cons.IH [OF tl] .
  have hd: "(if is_cased db p then lower_ucs4 db seen c cs else to_title_full db c)
            = (if is_space db c then [c]
               else if \<not> is_space db p then lower_ucs4 db seen c cs
               else to_title_full db c)"
    using Cons.prems
    by (auto simp: whitespace_plain_def plain_space_def same_title_lower_def lower_ucs4_def
             split: if_splits)
  show ?case
    by (simp only: do_title.simps title_words.simps hd rest)
qed

lemma do_title_words:
  assumes "whitespace_plain db s" and "no_letter_behind_caseless db s"
  shows "py_title db s = spec_title db s"
proof (cases s)
  case Nil
  then show ?thesis by (simp add: py_title_def spec_title_def)
next
  case (Cons c cs)
  have "do_title db (is_cased db c) [c] cs = title_words db (\<not> is_space db c) [c] cs"
    using assms unfolding Cons by (rule do_title_words_from)
  moreover have "is_space db c \<Longrightarrow> to_title_full db c = [c]"
    using assms(1) by (simp add: Cons whitespace_plain_def plain_space_def)
  ultimately show ?thesis
    by (simp add: Cons py_title_def spec_title_def)
qed

lemma dropWhile_snoc: "\<not> P a \<Longrightarrow> dropWhile P (xs @ [a]) = dropWhile P xs @ [a]"
  by (induction xs) auto

lemma py_strip_Cons:
  assumes "dropWhile (is_space db) s = a # r"
  shows "py_strip db s = a # rev (dropWhile (is_space db) (rev r))"
proof -
  from assms have "\<not> is_space db a"
    by (simp add: dropWhile_eq_Cons_conv)
  then show ?thesis
    using assms by (simp add: py_strip_def dropWhile_snoc)
qed

lemma strip_twice: "py_strip db (py_strip db s) = py_strip db s"
proof (cases "dropWhile (is_space db) s")
  case Nil
  have "py_strip db s = []"
    unfolding py_strip_def Nil by simp
  moreover have "py_strip db [] = []"
    by (simp add: py_strip_def)
  ultimately show ?thesis by simp
next
  case (Cons a r)
  let ?w = "rev (dropWhile (is_space db) (rev r))"
  from Cons have a: "\<not> is_space db a"
    by (simp add: dropWhile_eq_Cons_conv)
  have s: "py_strip db s = a # ?w"
    using Cons by (rule py_strip_Cons)
  from a have "dropWhile (is_space db) (a # ?w) = a # ?w"
    by simp
  then have "py_strip db (a # ?w) = a # rev (dropWhile (is_space db) (rev ?w))"
    by (rule py_strip_Cons)
  then show ?thesis
    by (simp add: s)
qed


lemma py_strip_surrounded:
  assumes "list_all (is_space db) l" and "list_all (is_space db) r"
  shows "py_strip db (l @ t @ r) = py_strip db t"
proof -
  let ?P = "is_space db"
  from assms(1) have l: "dropWhile ?P (l @ t @ r) = dropWhile ?P (t @ r)"
    by (intro dropWhile_append2) (simp add: list_all_iff)
  from assms(2) have r: "dropWhile ?P (rev r @ xs) = dropWhile ?P xs" for xs
    by (intro dropWhile_append2) (simp add: list_all_iff)
  have "dropWhile ?P (rev (dropWhile ?P (t @ r))) = dropWhile ?P (rev (dropWhile ?P t))"
  proof (cases "list_all ?P t")
    case True
    with assms(2) have a: "dropWhile ?P (t @ r) = []" and b: "dropWhile ?P t = []"
      by (simp_all add: list_all_iff)
    show ?thesis unfolding a b by simp
  next
    case False
    then have "dropWhile ?P (t @ r) = dropWhile ?P t @ r"
      by (auto simp: list_all_iff dropWhile_append1)
    then show ?thesis by (simp add: r)
  qed
  then show ?thesis by (simp add: py_strip_def l)
qed

lemma py_strip_trimmed:
  assumes "t \<noteq> []" and "\<not> is_space db (hd t)" and "\<not> is_space db (last t)"
  shows "py_strip db t = t"
proof -
  from assms have "dropWhile (is_space db) t = t"
    by (cases t) simp_all
  moreover from assms have "dropWhile (is_space db) (rev t) = rev t"
    by (cases "rev t") (simp_all add: hd_rev)
  ultimately show ?thesis by (simp add: py_strip_def)
qed

lemma get_name_strip: "get_name db (py_strip db t) = get_name db t"
  by (simp add: get_name_def strip_twice)

lemmas engine_defs = create_name_styles_def styles_def asc_def py_upper_def py_lower_def
  py_title_def alternating_def reversed_def emoji_name_def spaced_def lower_ucs4_def
  ucd_fragment_def

lemmas controller_defs = process_update_def conversation_check_update_def conv_handler_def
  update_state_def GET_NAME_def END_def

section \<open>The engine's claims\<close>

text \<open>
  Claim C1, as amended. For every non-empty single-line name the engine's result consists
  of exactly eight lines, in the fixed order Normal, Uppercase, Lowercase, Title Case,
  Alternating case, Reverse, With Emojis, Spaced Out, each the label followed by the
  variant. (The result is always the eight labelled variants joined by line feeds; a line
  feed inside the name is copied into the variants and breaks them into more lines.)
\<close>

theorem engine_eight_lines:
  assumes "name \<noteq> []" and "single_line db name"
  shows "lines_of (create_name_styles db name) =
     [ 0x1F539 # asc '' Normal: '' @ name,
       0x1F538 # asc '' UPPERCASE: '' @ py_upper db name,
       0x1F539 # asc '' lowercase: '' @ py_lower db name,
       0x1F538 # asc '' Title Case: '' @ py_title db name,
       0x1F539 # asc '' AlTeRnAtInG: '' @ alternating db name,
       0x1F538 # asc '' Reverse: '' @ reversed name,
       0x1F539 # asc '' With Emojis: '' @ emoji_name name,
       0x1F538 # asc '' Spaced Out: '' @ spaced name ]"
  using lines_engine [OF assms(2)] by (simp add: styles_def)

text \<open>The name \<open>Ana\<close> of the specification's example.\<close>

theorem engine_eight_lines_witness:
  "asc ''Ana'' \<noteq> [] \<and> single_line ucd_fragment (asc ''Ana'')
   \<and> lines_of (create_name_styles ucd_fragment (asc ''Ana'')) =
     [ 0x1F539 # asc '' Normal: Ana'',
       0x1F538 # asc '' UPPERCASE: ANA'',
       0x1F539 # asc '' lowercase: ana'',
       0x1F538 # asc '' Title Case: Ana'',
       0x1F539 # asc '' AlTeRnAtInG: AnA'',
       0x1F538 # asc '' Reverse: anA'',
       0x1F539 # asc '' With Emojis: A'' @ 0x2728 # asc '' n'' @ 0x2728 # asc '' a'' @ [0x2728],
       0x1F538 # asc '' Spaced Out: A n a'' ]"
proof -
  have ne: "asc ''Ana'' \<noteq> []"
    by (simp add: asc_def)
  have sl: "single_line ucd_fragment (asc ''Ana'')"
    by (simp add: single_line_def asc_def ucd_fragment_def)
  show ?thesis
    using ne sl engine_eight_lines [OF ne sl] by (simp add: engine_defs)
qed

text \<open>
  The name of two lines \<open>a\<close> and \<open>b\<close>: trimming leaves the line feed between them in
  place, so the name handler passes it to the engine, and the result has sixteen lines.
\<close>

theorem engine_eight_lines_counterexample:
  "[97, 10, 98] \<noteq> ([] :: str)
   \<and> py_strip ucd_fragment [97, 10, 98] = [97, 10, 98]
   \<and> length (lines_of (create_name_styles ucd_fragment [97, 10, 98])) = 16"
  by (simp add: engine_defs py_strip_def)

text \<open>
  Claim C2, as amended. For every non-empty name in which no letter with case directly
  follows a character that is neither whitespace nor cased, the Title Case variant
  capitalizes the first character of each whitespace-delimited word and lowercases the
  remaining characters of the word. (In general \<open>str.title\<close> starts a new word behind
  every character without case, a hyphen, an apostrophe or a digit as well as whitespace.)
\<close>

theorem title_case_of_words:
  assumes "name \<noteq> []" and "whitespace_plain db name" and "no_letter_behind_caseless db name"
  shows "styles db name ! 3 = 0x1F538 # asc '' Title Case: '' @ spec_title db name"
  using do_title_words [OF assms(2) assms(3)] by (simp add: styles_def)

text \<open>A name of two words and a digit between them.\<close>

theorem title_case_of_words_witness:
  "asc ''ana 3 MARIA'' \<noteq> [] \<and> whitespace_plain ucd_fragment (asc ''ana 3 MARIA'')
   \<and> no_letter_behind_caseless ucd_fragment (asc ''ana 3 MARIA'')
   \<and> styles ucd_fragment (asc ''ana 3 MARIA'') ! 3 = 0x1F538 # asc '' Title Case: Ana 3 Maria''"
proof -
  have ne: "asc ''ana 3 MARIA'' \<noteq> []"
    by (simp add: asc_def)
  have ws: "whitespace_plain ucd_fragment (asc ''ana 3 MARIA'')"
    by (simp add: whitespace_plain_def plain_space_def asc_def ucd_fragment_def)
  have nl: "no_letter_behind_caseless ucd_fragment (asc ''ana 3 MARIA'')"
    by (simp add: same_title_lower_def asc_def ucd_fragment_def)
  show ?thesis
    using ne ws nl title_case_of_words [OF ne ws nl]
    by (simp add: spec_title_def asc_def lower_ucs4_def ucd_fragment_def)
qed

text \<open>
  A name in a script without case (U+674E, U+660E) lies in the rule's range as well, and
  both sides leave it as it is.
\<close>

lemma title_case_caseless_script:
  "whitespace_plain ucd_fragment [0x674E, 0x660E]
   \<and> no_letter_behind_caseless ucd_fragment [0x674E, 0x660E]
   \<and> py_title ucd_fragment [0x674E, 0x660E] = [0x674E, 0x660E]
   \<and> spec_title ucd_fragment [0x674E, 0x660E] = [0x674E, 0x660E]"
  by (simp add: whitespace_plain_def same_title_lower_def py_title_def spec_title_def
        lower_ucs4_def ucd_fragment_def)

text \<open>
  The hyphen is a word boundary of the code and none of the claim: the engine gives
  \<open>Mary-Jane\<close>, the claim's rule \<open>Mary-jane\<close>.
\<close>

theorem title_case_counterexample:
  "styles ucd_fragment (asc ''mary-jane'') ! 3 = 0x1F538 # asc '' Title Case: Mary-Jane''
   \<and> spec_title ucd_fragment (asc ''mary-jane'') = asc ''Mary-jane''"
  by (simp add: engine_defs spec_title_def)

text \<open>
  Claim C3, as amended. For every non-empty name whose characters at an even index have a
  one-character uppercase mapping and whose characters at an odd index have a
  one-character lowercase mapping, the Alternating-case variant has exactly the length of
  the name.
\<close>

theorem alternating_same_length:
  assumes "name \<noteq> []" and "simple_case_in_place db name"
  shows "styles db name ! 4 = 0x1F539 # asc '' AlTeRnAtInG: '' @ alternating db name
         \<and> length (alternating db name) = length name"
  using alternating_length_in_place [of db 0 name] assms(2)
  by (simp add: styles_def alternating_def simple_case_in_place_def)

text \<open>
  The name \<open>Gro\<close> followed by the sharp s: the sharp s stands at an odd index, is
  lowercased to itself, and the length is kept.
\<close>

theorem alternating_same_length_witness:
  "[71, 114, 111, 223] \<noteq> ([] :: str)
   \<and> simple_case_in_place ucd_fragment [71, 114, 111, 223]
   \<and> alternating ucd_fragment [71, 114, 111, 223] = [71, 114, 79, 223]
   \<and> length (alternating ucd_fragment [71, 114, 111, 223])
       = length [71, 114, 111, 223 :: codepoint]"
proof -
  have ne: "[71, 114, 111, 223] \<noteq> ([] :: str)"
    by simp
  have sc: "simple_case_in_place ucd_fragment [71, 114, 111, 223]"
    by (simp add: simple_case_in_place_def ucd_fragment_def)
  show ?thesis
    using ne sc alternating_same_length [OF ne sc] by (simp add: engine_defs)
qed

text \<open>
  The surname \<open>Vo\<close> followed by the sharp s (U+00DF): the sharp s stands at an even index
  and its uppercase is \<open>SS\<close>, so the variant has four characters for the name's three.
\<close>

theorem alternating_length_counterexample:
  "alternating ucd_fragment [86, 111, 223] = [86, 111, 83, 83]
   \<and> length (alternating ucd_fragment [86, 111, 223]) \<noteq> length [86, 111, 223 :: codepoint]"
  by (simp add: engine_defs)

text \<open>
  Claim C4. For every name that contains no space, removing the spaces from the engine's
  Spaced Out variant gives the name back.
\<close>

theorem spaced_out_round_trip:
  assumes "32 \<notin> set name"
  shows "styles db name ! 7 = 0x1F538 # asc '' Spaced Out: '' @ spaced name
         \<and> filter (\<lambda>c. c \<noteq> 32) (spaced name) = name"
  using spaced_filter [OF assms] by (simp add: styles_def)

theorem spaced_out_round_trip_witness:
  "32 \<notin> set (asc ''Ana'') \<and> spaced (asc ''Ana'') = asc ''A n a''
   \<and> filter (\<lambda>c. c \<noteq> 32) (spaced (asc ''Ana'')) = asc ''Ana''"
proof -
  have ns: "32 \<notin> set (asc ''Ana'')"
    by (simp add: asc_def)
  show ?thesis
    using ns spaced_out_round_trip [OF ns] by (simp add: spaced_def asc_def)
qed

text \<open>
  Claim C9, as amended. The engine has no failure path: it is a total function of the
  string. For every single-line string, the empty string included, its result consists of
  exactly eight lines, and they start with the eight labels in their order.
\<close>

theorem engine_total_labelled_lines:
  assumes "single_line db name"
  shows "length (lines_of (create_name_styles db name)) = 8
         \<and> list_all2 prefix style_labels (lines_of (create_name_styles db name))"
  using lines_engine [OF assms] styles_labelled [of db name] by (simp add: styles_def)

text \<open>The empty string: the result is the eight bare labels.\<close>

theorem engine_total_labelled_lines_witness:
  "single_line ucd_fragment []
   \<and> lines_of (create_name_styles ucd_fragment []) = style_labels
   \<and> length (lines_of (create_name_styles ucd_fragment [])) = 8
   \<and> list_all2 prefix style_labels (lines_of (create_name_styles ucd_fragment []))"
proof -
  have sl: "single_line ucd_fragment []"
    by (simp add: single_line_def)
  have "lines_of (create_name_styles ucd_fragment []) = style_labels"
    by (simp add: engine_defs style_labels_def)
  then show ?thesis
    using sl engine_total_labelled_lines [OF sl] by simp
qed

text \<open>The string of one line feed: the result has sixteen lines.\<close>

theorem engine_total_counterexample:
  "length (lines_of (create_name_styles ucd_fragment [10])) = 16"
  by (simp add: engine_defs)

section \<open>The controller's claims\<close>

text \<open>The transitions of the session on the handled updates.\<close>

lemma idle_start:
  "process_update db None (Command ''start'') = (Some GET_NAME, fst start)"
  by (simp add: controller_defs start_def)

lemma awaiting_name_text:
  assumes "py_strip db body \<noteq> []"
  shows "process_update db (Some GET_NAME) (Text body) = (None, fst (get_name db body))"
proof -
  from assms have "body \<noteq> []"
    by (auto simp: py_strip_def)
  with assms show ?thesis
    by (simp add: controller_defs get_name_def Let_def)
qed

lemma awaiting_name_cancel:
  "process_update db (Some GET_NAME) (Command ''cancel'') = (None, fst cancel)"
  by (simp add: controller_defs cancel_def)

lemma help_keeps_state:
  "process_update db state (Command ''help'') = (state, fst help_command)"
  by (cases state) (simp_all add: controller_defs)

text \<open>
  Claim C5. In \<open>AwaitingName\<close>, a text message that is empty after trimming gets the
  validation complaint, and the session stays in \<open>AwaitingName\<close>. (A text message has
  text: the code's filter for this state passes no message whose text is empty.)
\<close>

theorem empty_name_stays_awaiting:
  assumes "body \<noteq> []" and "py_strip db body = []"
  shows "process_update db (Some GET_NAME) (Text body) =
           (Some GET_NAME,
            [\<lparr>reply_text = asc ''Please send me a valid name!'', reply_markup = None\<rparr>])"
  using assms by (simp add: controller_defs get_name_def)

theorem empty_name_stays_awaiting_witness:
  "asc ''   '' \<noteq> [] \<and> py_strip ucd_fragment (asc ''   '') = []
   \<and> process_update ucd_fragment (Some GET_NAME) (Text (asc ''   '')) =
           (Some GET_NAME,
            [\<lparr>reply_text = asc ''Please send me a valid name!'', reply_markup = None\<rparr>])"
proof -
  have ne: "asc ''   '' \<noteq> []"
    by (simp add: asc_def)
  have em: "py_strip ucd_fragment (asc ''   '') = []"
    by (simp add: py_strip_def asc_def ucd_fragment_def)
  show ?thesis
    using ne em empty_name_stays_awaiting [OF ne em] by simp
qed

text \<open>
  Claim C6, as amended. The entry command issued while the session is in \<open>AwaitingName\<close>
  is handled by no handler: nothing is sent, and the session stays in \<open>AwaitingName\<close>.
\<close>

theorem start_while_awaiting_is_ignored:
  "process_update db (Some GET_NAME) (Command ''start'') = (Some GET_NAME, [])"
  by (simp add: controller_defs)

text \<open>The welcome prompt is not sent again.\<close>

theorem start_while_awaiting_counterexample:
  "process_update ucd_fragment (Some GET_NAME) (Command ''start'') \<noteq> (Some GET_NAME, fst start)"
  by (simp add: controller_defs start_def)

text \<open>
  The entry points are tried during a conversation only with \<open>allow_reentry\<close>, which the
  source leaves at its default.
\<close>

lemma reentry_needs_allow_reentry:
  "conversation_check_update (conv_handler\<lparr>allow_reentry := True\<rparr>) (Some GET_NAME)
     (Command ''start'') = Some Start"
  by (simp add: conversation_check_update_def conv_handler_def)

text \<open>
  Claim C7, as amended. The cancel command issued while the session is \<open>Idle\<close> is handled
  by no handler: the session stays \<open>Idle\<close> and nothing is sent.
\<close>

theorem cancel_while_idle_is_ignored:
  "process_update db None (Command ''cancel'') = (None, [])"
  by (simp add: controller_defs)

text \<open>The cancellation acknowledgment is not sent.\<close>

theorem cancel_while_idle_counterexample:
  "process_update ucd_fragment None (Command ''cancel'') \<noteq> (None, fst cancel)"
  by (simp add: controller_defs cancel_def)

text \<open>
  Claim C10. The name handler is insensitive to surrounding whitespace: on a text with any
  whitespace put before and behind it, the handler does what it does on the text itself.
  The replies, with the name in the header and the engine input, and the next state are
  the same.
\<close>

theorem get_name_ignores_surrounding_whitespace:
  assumes "list_all (is_space db) l" and "list_all (is_space db) r"
  shows "get_name db (l @ t @ r) = get_name db t"
  by (simp add: get_name_def py_strip_surrounded [OF assms])

text \<open>
  The name \<open>Ana\<close> behind two spaces and before a space and a line feed: the replies are
  those for \<open>Ana\<close>, whose header names \<open>Ana\<close>.
\<close>

theorem get_name_ignores_surrounding_whitespace_witness:
  "list_all (is_space ucd_fragment) (asc ''  '') \<and> list_all (is_space ucd_fragment) [32, 10]
   \<and> get_name ucd_fragment (asc ''  '' @ asc ''Ana'' @ [32, 10])
       = get_name ucd_fragment (asc ''Ana'')
   \<and> reply_text (hd (fst (get_name ucd_fragment (asc ''  '' @ asc ''Ana'' @ [32, 10]))))
       = 0x2728 # asc '' Here's your name in different styles, Ana!'' @ [10, 10]
         @ create_name_styles ucd_fragment (asc ''Ana'')"
proof -
  have l: "list_all (is_space ucd_fragment) (asc ''  '')"
    by (simp add: asc_def ucd_fragment_def)
  have r: "list_all (is_space ucd_fragment) [32, 10]"
    by (simp add: ucd_fragment_def)
  have n: "py_strip ucd_fragment (asc ''Ana'') = asc ''Ana''"
    by (simp add: py_strip_def asc_def ucd_fragment_def)
  show ?thesis
    using l r get_name_ignores_surrounding_whitespace [OF l r, of "asc ''Ana''"] n
    by (simp add: get_name_def Let_def) (simp add: asc_def)
qed

section \<open>The claim on process start\<close>

text \<open>
  Claim C8. When the token is absent from the environment the script ends in the
  configuration error before any listener starts: the only effect before the error is the
  logging setup, and neither the bot's polling loop nor the HTTP loop is started.
\<close>

theorem missing_token_fails_fast:
  assumes "env ''TELEGRAM_BOT_TOKEN'' = None"
  shows "run_script env =
           ([ConfigureLogging],
            Some (ValueError ''No TELEGRAM_BOT_TOKEN found in environment variables''))
         \<and> list_all (\<lambda>e. \<not> starts_listener e) (fst (run_script env))"
  using assms by (simp add: run_script_def module_top_level_def)

theorem missing_token_fails_fast_witness:
  "(Map.empty :: environ) ''TELEGRAM_BOT_TOKEN'' = None
   \<and> run_script Map.empty =
           ([ConfigureLogging],
            Some (ValueError ''No TELEGRAM_BOT_TOKEN found in environment variables''))
   \<and> list_all (\<lambda>e. \<not> starts_listener e) (fst (run_script Map.empty))"
proof -
  have ab: "(Map.empty :: environ) ''TELEGRAM_BOT_TOKEN'' = None"
    by simp
  show ?thesis
    using ab missing_token_fails_fast [OF ab] by simp
qed

text \<open>With a token the script reaches both listeners.\<close>

lemma token_present_starts_listeners:
  assumes "env ''TELEGRAM_BOT_TOKEN'' = Some token" and "token \<noteq> []"
  shows "run_script env =
           ([ConfigureLogging, CreateWebApp, StartBotThread token, RunWebServer], None)"
  using assms by (simp add: run_script_def module_top_level_def)


end
